theory Spec2Isabelle
  imports Main
begin

section \<open>Data model of parser.c\<close>

text \<open>
  The C enumeration \<^verbatim>\<open>TokenType\<close>, in declaration order, so that
  \<^verbatim>\<open>TOKEN_INT\<close> is the enumerator with the value 0.
\<close>

datatype TokenType =
    TOKEN_INT | TOKEN_IDENTIFIER | TOKEN_NUMBER | TOKEN_ASSIGN
  | TOKEN_PLUS | TOKEN_MINUS | TOKEN_IF | TOKEN_EQUAL
  | TOKEN_LBRACE | TOKEN_RBRACE | TOKEN_SEMICOLON | TOKEN_EOF | TOKEN_UNKNOWN

text \<open>The integer that \<^verbatim>\<open>printf("%d")\<close> shows for an enumerator.\<close>

fun TokenType_code :: "TokenType \<Rightarrow> nat" where
  "TokenType_code TOKEN_INT = 0"
| "TokenType_code TOKEN_IDENTIFIER = 1"
| "TokenType_code TOKEN_NUMBER = 2"
| "TokenType_code TOKEN_ASSIGN = 3"
| "TokenType_code TOKEN_PLUS = 4"
| "TokenType_code TOKEN_MINUS = 5"
| "TokenType_code TOKEN_IF = 6"
| "TokenType_code TOKEN_EQUAL = 7"
| "TokenType_code TOKEN_LBRACE = 8"
| "TokenType_code TOKEN_RBRACE = 9"
| "TokenType_code TOKEN_SEMICOLON = 10"
| "TokenType_code TOKEN_EOF = 11"
| "TokenType_code TOKEN_UNKNOWN = 12"

text \<open>
  \<^verbatim>\<open>struct Token { TokenType type; char text[MAX_TOKEN_LEN]; }\<close>. The character
  array holds a NUL-terminated C string, modelled by the string before the NUL. The
  bound \<^verbatim>\<open>MAX_TOKEN_LEN\<close> is not modelled: the only code that would fill the array is
  the tokenizer, whose body is empty, and \<^verbatim>\<open>createNode\<close> copies into an array of the same
  size.
\<close>

record Token =
  t_type :: TokenType
  t_text :: string

text \<open>
  \<^verbatim>\<open>struct Node { TokenType type; Node* left; Node* right; char value[]; }\<close>.
  Every node is allocated by \<open>createNode\<close> and is reachable from one place only (a
  local variable, or one child field of its parent), so the pointer structure is a tree
  and a child pointer is modelled by an optional subtree; \<^verbatim>\<open>NULL\<close> is \<open>None\<close>.
  An assignment to a child field of a node held in a local variable is a functional
  update of that node.
\<close>

datatype Node = Node (n_type: TokenType) (n_left: "Node option") (n_right: "Node option")
  (n_value: string)

text \<open>
  The state the functions work on: the global variable \<^verbatim>\<open>currentToken\<close> and the
  input stream behind the \<^verbatim>\<open>FILE*\<close> that every function passes on. The functions
  of parser.c never read the stream themselves, so its type is a parameter.
\<close>

record 'f pstate =
  currentToken :: Token
  stream :: 'f

text \<open>
  How a run can stop without returning: the two \<^verbatim>\<open>exit(1)\<close> paths, each with what
  its message prints, and the use of the uninitialised pointer \<^verbatim>\<open>stmt\<close> in
  \<open>parseProgram\<close>, which is undefined behaviour in C.
\<close>

datatype error =
    SyntaxError TokenType TokenType
  | FactorError
  | UninitializedStmt

text \<open>The line that \<open>match\<close> prints before \<^verbatim>\<open>exit(1)\<close> shows the two enumerators as integers.\<close>

fun error_codes :: "error \<Rightarrow> (nat \<times> nat) option" where
  "error_codes (SyntaxError expected actual) =
     Some (TokenType_code expected, TokenType_code actual)"
| "error_codes FactorError = None"
| "error_codes UninitializedStmt = None"

section \<open>The tokenizer\<close>

text \<open>
  \<^verbatim>\<open>void getNextToken(FILE *file) { }\<close>: the body is empty, so neither the global
  \<^verbatim>\<open>currentToken\<close> nor the stream changes.
\<close>

definition getNextToken :: "'f pstate \<Rightarrow> 'f pstate" where
  "getNextToken s = s"

text \<open>
  A C global without initialiser is zero-initialised: the token kind is the enumerator 0
  and the text is empty.
\<close>

definition initial_currentToken :: Token where
  "initial_currentToken = \<lparr>t_type = TOKEN_INT, t_text = []\<rparr>"

section \<open>The parser\<close>

text \<open>
  Every function of the parser takes the tokenizer it calls as its first argument \<open>g\<close>:
  the source's functions are the instances at \<open>getNextToken\<close>. A function that can
  reach \<^verbatim>\<open>exit(1)\<close> returns \<open>Inl\<close> of the error, and every caller passes an \<open>Inl\<close>
  on unchanged, since \<^verbatim>\<open>exit\<close> ends the process. The two loops are defined as partial
  functions: \<open>None\<close> is a loop that runs forever.
\<close>

text \<open>
  \<^verbatim>\<open>createNode\<close>: a fresh node with the token's kind and a copy of its text, and no
  children. (\<^verbatim>\<open>malloc\<close> is taken to succeed.)
\<close>

definition createNode :: "Token \<Rightarrow> Node" where
  "createNode token = Node (t_type token) None None (t_text token)"

text \<open>The assignments \<^verbatim>\<open>node->left = child\<close> and \<^verbatim>\<open>node->right = child\<close>.\<close>

definition set_left :: "Node \<Rightarrow> Node \<Rightarrow> Node" where
  "set_left node child = Node (n_type node) (Some child) (n_right node) (n_value node)"

definition set_right :: "Node \<Rightarrow> Node \<Rightarrow> Node" where
  "set_right node child = Node (n_type node) (n_left node) (Some child) (n_value node)"

definition match :: "('f pstate \<Rightarrow> 'f pstate) \<Rightarrow> TokenType \<Rightarrow> 'f pstate \<Rightarrow> error + 'f pstate" where
  "match g expected s =
     (if t_type (currentToken s) = expected then Inr (g s)
      else Inl (SyntaxError expected (t_type (currentToken s))))"

definition parseFactor :: "('f pstate \<Rightarrow> 'f pstate) \<Rightarrow> 'f pstate \<Rightarrow> error + (Node \<times> 'f pstate)" where
  "parseFactor g s =
     (let node = createNode (currentToken s) in
      if t_type (currentToken s) = TOKEN_NUMBER \<or> t_type (currentToken s) = TOKEN_IDENTIFIER
      then (case match g (t_type (currentToken s)) s of
              Inl e \<Rightarrow> Inl e
            | Inr s1 \<Rightarrow> Inr (node, s1))
      else Inl FactorError)"

text \<open>The \<^verbatim>\<open>while\<close> loop of \<open>parseExpression\<close>, from the state after the first factor.\<close>

partial_function (option) parseExpression_loop ::
  "('f pstate \<Rightarrow> 'f pstate) \<Rightarrow> Node \<Rightarrow> 'f pstate \<Rightarrow> (error + (Node \<times> 'f pstate)) option" where
  "parseExpression_loop g node s =
     (if t_type (currentToken s) = TOKEN_PLUS \<or> t_type (currentToken s) = TOKEN_MINUS
      then (let operator = currentToken s in
            case match g (t_type (currentToken s)) s of
              Inl e \<Rightarrow> Some (Inl e)
            | Inr s1 \<Rightarrow>
                (let operatorNode = createNode operator in
                 case parseFactor g s1 of
                   Inl e \<Rightarrow> Some (Inl e)
                 | Inr (rnode, s2) \<Rightarrow>
                     parseExpression_loop g (set_right (set_left operatorNode node) rnode) s2))
      else Some (Inr (node, s)))"

declare parseExpression_loop.simps [code]

definition parseExpression ::
  "('f pstate \<Rightarrow> 'f pstate) \<Rightarrow> 'f pstate \<Rightarrow> (error + (Node \<times> 'f pstate)) option" where
  "parseExpression g s =
     (case parseFactor g s of
        Inl e \<Rightarrow> Some (Inl e)
      | Inr (node, s1) \<Rightarrow> parseExpression_loop g node s1)"

definition parseAssignment ::
  "('f pstate \<Rightarrow> 'f pstate) \<Rightarrow> 'f pstate \<Rightarrow> (error + (Node \<times> 'f pstate)) option" where
  "parseAssignment g s =
     (let node = createNode (currentToken s) in
      case match g TOKEN_IDENTIFIER s of
        Inl e \<Rightarrow> Some (Inl e)
      | Inr s1 \<Rightarrow>
     (case match g TOKEN_ASSIGN s1 of
        Inl e \<Rightarrow> Some (Inl e)
      | Inr s2 \<Rightarrow>
     (case parseExpression g s2 of
        None \<Rightarrow> None
      | Some (Inl e) \<Rightarrow> Some (Inl e)
      | Some (Inr (rnode, s3)) \<Rightarrow>
     (case match g TOKEN_SEMICOLON s3 of
        Inl e \<Rightarrow> Some (Inl e)
      | Inr s4 \<Rightarrow> Some (Inr (set_right node rnode, s4))))))"

definition parseDeclaration ::
  "('f pstate \<Rightarrow> 'f pstate) \<Rightarrow> 'f pstate \<Rightarrow> error + (Node \<times> 'f pstate)" where
  "parseDeclaration g s =
     (case match g TOKEN_INT s of
        Inl e \<Rightarrow> Inl e
      | Inr s1 \<Rightarrow>
     (let node = createNode (currentToken s1) in
      case match g TOKEN_IDENTIFIER s1 of
        Inl e \<Rightarrow> Inl e
      | Inr s2 \<Rightarrow>
     (case match g TOKEN_SEMICOLON s2 of
        Inl e \<Rightarrow> Inl e
      | Inr s3 \<Rightarrow> Inr (node, s3))))"

text \<open>
  In \<open>parseConditional\<close> the field \<^verbatim>\<open>node->left\<close> is assigned twice: first the left
  operand of the comparison, later the body.
\<close>

definition parseConditional ::
  "('f pstate \<Rightarrow> 'f pstate) \<Rightarrow> 'f pstate \<Rightarrow> (error + (Node \<times> 'f pstate)) option" where
  "parseConditional g s =
     (case match g TOKEN_IF s of
        Inl e \<Rightarrow> Some (Inl e)
      | Inr s1 \<Rightarrow>
     (case match g TOKEN_LBRACE s1 of
        Inl e \<Rightarrow> Some (Inl e)
      | Inr s2 \<Rightarrow>
     (let node = createNode (currentToken s2) in
      case parseExpression g s2 of
        None \<Rightarrow> None
      | Some (Inl e) \<Rightarrow> Some (Inl e)
      | Some (Inr (lnode, s3)) \<Rightarrow>
     (let node = set_left node lnode in
      case match g TOKEN_EQUAL s3 of
        Inl e \<Rightarrow> Some (Inl e)
      | Inr s4 \<Rightarrow>
     (case parseExpression g s4 of
        None \<Rightarrow> None
      | Some (Inl e) \<Rightarrow> Some (Inl e)
      | Some (Inr (rnode, s5)) \<Rightarrow>
     (let node = set_right node rnode in
      case match g TOKEN_RBRACE s5 of
        Inl e \<Rightarrow> Some (Inl e)
      | Inr s6 \<Rightarrow>
     (case match g TOKEN_LBRACE s6 of
        Inl e \<Rightarrow> Some (Inl e)
      | Inr s7 \<Rightarrow>
     (case parseAssignment g s7 of
        None \<Rightarrow> None
      | Some (Inl e) \<Rightarrow> Some (Inl e)
      | Some (Inr (body, s8)) \<Rightarrow>
     (let node = set_left node body in
      case match g TOKEN_RBRACE s8 of
        Inl e \<Rightarrow> Some (Inl e)
      | Inr s9 \<Rightarrow> Some (Inr (node, s9)))))))))))"

text \<open>
  The \<^verbatim>\<open>if\<close> chain in the body of \<open>parseProgram\<close>'s loop, which sets \<^verbatim>\<open>stmt\<close>. The
  chain has no final \<^verbatim>\<open>else\<close>: for any other kind \<^verbatim>\<open>stmt\<close> stays uninitialised,
  and the \<^verbatim>\<open>printf\<close> that follows reads \<^verbatim>\<open>stmt->value\<close>.
\<close>

definition parseProgram_stmt ::
  "('f pstate \<Rightarrow> 'f pstate) \<Rightarrow> 'f pstate \<Rightarrow> (error + (Node \<times> 'f pstate)) option" where
  "parseProgram_stmt g s =
     (if t_type (currentToken s) = TOKEN_INT then Some (parseDeclaration g s)
      else if t_type (currentToken s) = TOKEN_IF then parseConditional g s
      else if t_type (currentToken s) = TOKEN_IDENTIFIER then parseAssignment g s
      else Some (Inl UninitializedStmt))"

text \<open>The line printed for a statement (without its newline).\<close>

definition parsed_line :: "Node \<Rightarrow> string" where
  "parsed_line stmt = ''Parsed statement with root: '' @ n_value stmt"

text \<open>
  The \<^verbatim>\<open>while\<close> loop of \<open>parseProgram\<close>; \<open>out\<close> is the lines printed so far. The
  function's return type is \<^verbatim>\<open>void\<close>: what a run that returns leaves behind is the
  printed lines and the state. A run that stops keeps the lines printed before.
\<close>

partial_function (option) parseProgram_loop ::
  "('f pstate \<Rightarrow> 'f pstate) \<Rightarrow> string list \<Rightarrow> 'f pstate \<Rightarrow>
     ((string list \<times> error) + (string list \<times> 'f pstate)) option" where
  "parseProgram_loop g out s =
     (if t_type (currentToken s) \<noteq> TOKEN_EOF
      then (case parseProgram_stmt g s of
              None \<Rightarrow> None
            | Some (Inl e) \<Rightarrow> Some (Inl (out, e))
            | Some (Inr (stmt, s1)) \<Rightarrow> parseProgram_loop g (out @ [parsed_line stmt]) s1)
      else Some (Inr (out, s)))"

declare parseProgram_loop.simps [code]

definition parseProgram ::
  "('f pstate \<Rightarrow> 'f pstate) \<Rightarrow> 'f pstate \<Rightarrow>
     ((string list \<times> error) + (string list \<times> 'f pstate)) option" where
  "parseProgram g s = parseProgram_loop g [] (g s)"

section \<open>Token values, and a tokenizer that delivers tokens\<close>

text \<open>
  Shorthand for token values: a keyword or symbol token with an empty text, and an
  identifier and a number token with their lexeme.
\<close>

definition sym :: "TokenType \<Rightarrow> Token" where
  "sym k = \<lparr>t_type = k, t_text = []\<rparr>"

definition ident :: "string \<Rightarrow> Token" where
  "ident x = \<lparr>t_type = TOKEN_IDENTIFIER, t_text = x\<rparr>"

definition num :: "string \<Rightarrow> Token" where
  "num x = \<lparr>t_type = TOKEN_NUMBER, t_text = x\<rparr>"

text \<open>
  A tokenizer other than the source's. It does what the callers of \<open>getNextToken\<close>
  expect of it: the stream is the sequence of tokens not yet delivered, a request stores
  the next one in \<open>currentToken\<close>, and a request at the end of the stream stores
  \<^verbatim>\<open>TOKEN_EOF\<close> with an empty text. The source's \<open>getNextToken\<close> does none of this,
  and no property of the program is derived from \<open>nextToken\<close>. It only serves, next
  to the results for the source's tokenizer, to show what the bodies of
  \<open>parseConditional\<close> and of \<open>parseProgram\<close> do when tokens are delivered.
\<close>

definition nextToken :: "Token list pstate \<Rightarrow> Token list pstate" where
  "nextToken s =
     (case stream s of
        [] \<Rightarrow> s\<lparr>currentToken := \<lparr>t_type = TOKEN_EOF, t_text = []\<rparr>\<rparr>
      | t # ts \<Rightarrow> \<lparr>currentToken = t, stream = ts\<rparr>)"

text \<open>
  The state \<open>nextToken\<close> leaves when a whole token sequence was still in the stream: the
  first token is the current token and the others are still to be delivered.
\<close>

fun loaded :: "Token list \<Rightarrow> Token list pstate" where
  "loaded [] = \<lparr>currentToken = \<lparr>t_type = TOKEN_EOF, t_text = []\<rparr>, stream = []\<rparr>"
| "loaded (t # ts) = \<lparr>currentToken = t, stream = ts\<rparr>"

declare loaded.simps [simp del]

text \<open>The tokens of \<^verbatim>\<open>if { a == b } { x = 1; }\<close>.\<close>

definition tokens_conditional :: "Token list" where
  "tokens_conditional =
     [sym TOKEN_IF, sym TOKEN_LBRACE, ident ''a'', sym TOKEN_EQUAL, ident ''b'',
      sym TOKEN_RBRACE, sym TOKEN_LBRACE, ident ''x'', sym TOKEN_ASSIGN, num ''1'',
      sym TOKEN_SEMICOLON, sym TOKEN_RBRACE]"

section \<open>The structural invariant of a tree\<close>


section \<open>Basic facts\<close>

lemma match_stub:
  "match getNextToken k s =
     (if t_type (currentToken s) = k then Inr s
      else Inl (SyntaxError k (t_type (currentToken s))))"
  by (simp add: match_def getNextToken_def)

lemma parseFactor_stub:
  "parseFactor getNextToken s =
     (if t_type (currentToken s) = TOKEN_NUMBER \<or> t_type (currentToken s) = TOKEN_IDENTIFIER
      then Inr (createNode (currentToken s), s) else Inl FactorError)"
  by (simp add: parseFactor_def match_stub)

lemma parseExpression_loop_exit:
  "t_type (currentToken s) \<noteq> TOKEN_PLUS \<Longrightarrow> t_type (currentToken s) \<noteq> TOKEN_MINUS \<Longrightarrow>
   parseExpression_loop g node s = Some (Inr (node, s))"
  by (subst parseExpression_loop.simps) simp

lemma parseExpression_stub:
  "parseExpression getNextToken s = Some (parseFactor getNextToken s)"
  by (auto simp: parseExpression_def parseFactor_stub parseExpression_loop_exit)

lemma parseAssignment_stub:
  "parseAssignment getNextToken s =
     Some (Inl (if t_type (currentToken s) = TOKEN_IDENTIFIER
                then SyntaxError TOKEN_ASSIGN TOKEN_IDENTIFIER
                else SyntaxError TOKEN_IDENTIFIER (t_type (currentToken s))))"
  by (simp add: parseAssignment_def match_stub)

lemma parseDeclaration_stub:
  "parseDeclaration getNextToken s =
     Inl (if t_type (currentToken s) = TOKEN_INT
          then SyntaxError TOKEN_IDENTIFIER TOKEN_INT
          else SyntaxError TOKEN_INT (t_type (currentToken s)))"
  by (simp add: parseDeclaration_def match_stub)

lemma parseConditional_stub:
  "parseConditional getNextToken s =
     Some (Inl (if t_type (currentToken s) = TOKEN_IF
                then SyntaxError TOKEN_LBRACE TOKEN_IF
                else SyntaxError TOKEN_IF (t_type (currentToken s))))"
  by (simp add: parseConditional_def match_stub)

lemma parseProgram_loop_exit:
  "t_type (currentToken s) = TOKEN_EOF \<Longrightarrow> parseProgram_loop g out s = Some (Inr (out, s))"
  by (subst parseProgram_loop.simps) simp

lemma parseProgram_loop_error:
  "t_type (currentToken s) \<noteq> TOKEN_EOF \<Longrightarrow> parseProgram_stmt g s = Some (Inl e) \<Longrightarrow>
   parseProgram_loop g out s = Some (Inl (out, e))"
  by (subst parseProgram_loop.simps) simp

lemma parseProgram_stmt_stub:
  "t_type (currentToken s) \<noteq> TOKEN_EOF \<Longrightarrow>
   parseProgram_stmt getNextToken s =
     Some (Inl (if t_type (currentToken s) = TOKEN_INT then SyntaxError TOKEN_IDENTIFIER TOKEN_INT
                else if t_type (currentToken s) = TOKEN_IF then SyntaxError TOKEN_LBRACE TOKEN_IF
                else if t_type (currentToken s) = TOKEN_IDENTIFIER
                  then SyntaxError TOKEN_ASSIGN TOKEN_IDENTIFIER
                else UninitializedStmt))"
  by (simp add: parseProgram_stmt_def parseDeclaration_stub parseConditional_stub
      parseAssignment_stub)

lemma parseProgram_stub:
  "parseProgram getNextToken s =
     Some (if t_type (currentToken s) = TOKEN_EOF then Inr ([], s)
           else Inl ([],
             if t_type (currentToken s) = TOKEN_INT then SyntaxError TOKEN_IDENTIFIER TOKEN_INT
             else if t_type (currentToken s) = TOKEN_IF then SyntaxError TOKEN_LBRACE TOKEN_IF
             else if t_type (currentToken s) = TOKEN_IDENTIFIER
               then SyntaxError TOKEN_ASSIGN TOKEN_IDENTIFIER
             else UninitializedStmt))"
proof (cases "t_type (currentToken s) = TOKEN_EOF")
  case True
  then show ?thesis
    by (simp add: parseProgram_def getNextToken_def parseProgram_loop_exit)
next
  case False
  then show ?thesis
    using parseProgram_loop_error [OF False parseProgram_stmt_stub [OF False], of "[]"]
    by (simp add: parseProgram_def getNextToken_def)
qed

text \<open>The tokenizer \<open>nextToken\<close> on a token sequence.\<close>

lemma nextToken_loaded: "nextToken \<lparr>currentToken = c, stream = ts\<rparr> = loaded ts"
  by (cases ts) (simp_all add: nextToken_def loaded.simps)

lemma nextToken_loaded_Cons [simp]: "nextToken (loaded (t # ts)) = loaded ts"
  by (simp add: nextToken_loaded loaded.simps)

lemma nextToken_loaded_Nil [simp]: "nextToken (loaded []) = loaded []"
  by (simp add: nextToken_def loaded.simps)

lemma currentToken_loaded_Cons [simp]: "currentToken (loaded (t # ts)) = t"
  by (simp add: loaded.simps)

lemma currentToken_loaded_Nil [simp]:
  "currentToken (loaded []) = \<lparr>t_type = TOKEN_EOF, t_text = []\<rparr>"
  by (simp add: loaded.simps)

text \<open>The equations that evaluate the parser on a concrete token sequence.\<close>

lemmas eval_defs =
  parseExpression_def parseFactor_def match_def nextToken_def createNode_def set_left_def
  set_right_def parseAssignment_def parseDeclaration_def parseConditional_def parseProgram_def
  parseProgram_stmt_def parsed_line_def sym_def ident_def num_def loaded.simps

section \<open>The claims\<close>

subsection \<open>The empty tokenizer\<close>

text \<open>
  C10: \<open>getNextToken\<close> leaves the state, and so the current token, exactly as it was.
  Hence \<open>match\<close> at \<open>getNextToken\<close> returns the state it was given, and so does every
  grammar rule that returns: \<open>parseFactor\<close> and \<open>parseExpression\<close> return the leaf of the
  current token with the state unchanged (the loop of \<open>parseExpression\<close> is never
  entered), the three statement rules stop at their second \<open>match\<close> at the latest, and
  \<open>parseProgram\<close> returns only when the current token is \<^verbatim>\<open>TOKEN_EOF\<close>, with the state
  unchanged and nothing printed. The parser only ever sees the initial current token.
\<close>

theorem getNextToken_frame:
  "getNextToken s = s \<and>
   match getNextToken k s =
     (if t_type (currentToken s) = k then Inr s
      else Inl (SyntaxError k (t_type (currentToken s)))) \<and>
   parseFactor getNextToken s =
     (if t_type (currentToken s) = TOKEN_NUMBER \<or> t_type (currentToken s) = TOKEN_IDENTIFIER
      then Inr (createNode (currentToken s), s) else Inl FactorError) \<and>
   parseExpression getNextToken s = Some (parseFactor getNextToken s) \<and>
   parseAssignment getNextToken s =
     Some (Inl (if t_type (currentToken s) = TOKEN_IDENTIFIER
                then SyntaxError TOKEN_ASSIGN TOKEN_IDENTIFIER
                else SyntaxError TOKEN_IDENTIFIER (t_type (currentToken s)))) \<and>
   parseDeclaration getNextToken s =
     Inl (if t_type (currentToken s) = TOKEN_INT
          then SyntaxError TOKEN_IDENTIFIER TOKEN_INT
          else SyntaxError TOKEN_INT (t_type (currentToken s))) \<and>
   parseConditional getNextToken s =
     Some (Inl (if t_type (currentToken s) = TOKEN_IF
                then SyntaxError TOKEN_LBRACE TOKEN_IF
                else SyntaxError TOKEN_IF (t_type (currentToken s)))) \<and>
   parseProgram getNextToken s =
     Some (if t_type (currentToken s) = TOKEN_EOF then Inr ([], s)
           else Inl ([],
             if t_type (currentToken s) = TOKEN_INT then SyntaxError TOKEN_IDENTIFIER TOKEN_INT
             else if t_type (currentToken s) = TOKEN_IF then SyntaxError TOKEN_LBRACE TOKEN_IF
             else if t_type (currentToken s) = TOKEN_IDENTIFIER
               then SyntaxError TOKEN_ASSIGN TOKEN_IDENTIFIER
             else UninitializedStmt))"
proof -
  have "getNextToken s = s"
    by (simp add: getNextToken_def)
  then show ?thesis
    by (simp only: match_stub parseFactor_stub parseExpression_stub parseAssignment_stub
        parseDeclaration_stub parseConditional_stub parseProgram_stub simp_thms)
qed

text \<open>
  The program as it stands, whatever the input file holds: the zero-initialised current
  token has the kind \<^verbatim>\<open>TOKEN_INT\<close>, so the run stops in \<open>parseDeclaration\<close> with
  \<^verbatim>\<open>Syntax error: expected token 1 but got 0\<close>.
\<close>

theorem getNextToken_frame_witness:
  "getNextToken \<lparr>currentToken = initial_currentToken, stream = ''int x;''\<rparr> =
     \<lparr>currentToken = initial_currentToken, stream = ''int x;''\<rparr> \<and>
   parseProgram getNextToken \<lparr>currentToken = initial_currentToken, stream = ''int x;''\<rparr> =
     Some (Inl ([], SyntaxError TOKEN_IDENTIFIER TOKEN_INT)) \<and>
   error_codes (SyntaxError TOKEN_IDENTIFIER TOKEN_INT) = Some (1, 0)"
  using getNextToken_frame [of "\<lparr>currentToken = initial_currentToken, stream = ''int x;''\<rparr>"]
  by (simp add: initial_currentToken_def)

subsection \<open>The primitive \<open>match\<close>\<close>

text \<open>
  C3 (the claim does not hold of the code): when the current token has the kind \<open>k\<close>,
  \<open>match\<close> calls \<open>getNextToken\<close> and returns, but the call changes nothing: the state
  after \<open>match\<close> is the state before it, so the current token is still the token that was
  matched and not the next one. When the kinds differ, \<open>match\<close> stops with the syntax
  error that names \<open>k\<close> as expected and the current kind as found, printed as their two
  enumerator values, as the claim says. For the input \<^verbatim>\<open>int 5;\<close> the number is never
  seen: \<^verbatim>\<open>match(TOKEN_INT)\<close> leaves \<^verbatim>\<open>int\<close> current, and \<^verbatim>\<open>match(TOKEN_IDENTIFIER)\<close>
  stops with Identifier expected and Int found (\<^verbatim>\<open>expected token 1 but got 0\<close>), both in
  \<open>parseDeclaration\<close> and in the whole program started with its zero-initialised current
  token.
\<close>

theorem match_no_advance:
  "(t_type (currentToken s) = k \<longrightarrow> match getNextToken k s = Inr s) \<and>
   (t_type (currentToken s) \<noteq> k \<longrightarrow>
      match getNextToken k s = Inl (SyntaxError k (t_type (currentToken s))) \<and>
      error_codes (SyntaxError k (t_type (currentToken s))) =
        Some (TokenType_code k, TokenType_code (t_type (currentToken s)))) \<and>
   parseDeclaration getNextToken \<lparr>currentToken = sym TOKEN_INT, stream = ''int 5;''\<rparr> =
     Inl (SyntaxError TOKEN_IDENTIFIER TOKEN_INT) \<and>
   parseProgram getNextToken \<lparr>currentToken = initial_currentToken, stream = ''int 5;''\<rparr> =
     Some (Inl ([], SyntaxError TOKEN_IDENTIFIER TOKEN_INT)) \<and>
   error_codes (SyntaxError TOKEN_IDENTIFIER TOKEN_INT) = Some (1, 0)"
  by (simp add: match_stub parseDeclaration_stub parseProgram_stub sym_def
      initial_currentToken_def)

theorem match_no_advance_witness:
  "match getNextToken TOKEN_INT \<lparr>currentToken = sym TOKEN_INT, stream = ''int 5;''\<rparr> =
     Inr \<lparr>currentToken = sym TOKEN_INT, stream = ''int 5;''\<rparr> \<and>
   match getNextToken TOKEN_IDENTIFIER \<lparr>currentToken = sym TOKEN_INT, stream = ''int 5;''\<rparr> =
     Inl (SyntaxError TOKEN_IDENTIFIER TOKEN_INT)"
  using match_no_advance
      [of "\<lparr>currentToken = sym TOKEN_INT, stream = ''int 5;''\<rparr>" TOKEN_INT]
    match_no_advance
      [of "\<lparr>currentToken = sym TOKEN_INT, stream = ''int 5;''\<rparr>" TOKEN_IDENTIFIER]
  by (simp add: sym_def)

subsection \<open>The statement dispatch\<close>

text \<open>
  C2 (the claim asks for an explicit syntax error; the code has none): when the current
  token at statement position has a kind other than \<^verbatim>\<open>TOKEN_INT\<close>, \<^verbatim>\<open>TOKEN_IF\<close>,
  \<^verbatim>\<open>TOKEN_IDENTIFIER\<close> and \<^verbatim>\<open>TOKEN_EOF\<close>, no branch of the dispatch is taken, no token
  is consumed and no syntax error is reported: the loop goes on to read the uninitialised
  \<^verbatim>\<open>stmt\<close>. This holds with every tokenizer and at every iteration.
\<close>

theorem parseProgram_other_kind:
  "t_type (currentToken s) \<notin> {TOKEN_INT, TOKEN_IF, TOKEN_IDENTIFIER, TOKEN_EOF} \<Longrightarrow>
   parseProgram_stmt g s = Some (Inl UninitializedStmt) \<and>
   parseProgram_loop g out s = Some (Inl (out, UninitializedStmt))"
proof -
  assume k: "t_type (currentToken s) \<notin> {TOKEN_INT, TOKEN_IF, TOKEN_IDENTIFIER, TOKEN_EOF}"
  then have st: "parseProgram_stmt g s = Some (Inl UninitializedStmt)"
    by (simp add: parseProgram_stmt_def)
  from k have "t_type (currentToken s) \<noteq> TOKEN_EOF"
    by simp
  from parseProgram_loop_error [OF this st] st show ?thesis
    by simp
qed

theorem parseProgram_other_kind_witness:
  "TOKEN_UNKNOWN \<notin> {TOKEN_INT, TOKEN_IF, TOKEN_IDENTIFIER, TOKEN_EOF} \<and>
   parseProgram nextToken
     \<lparr>currentToken = initial_currentToken, stream = [\<lparr>t_type = TOKEN_UNKNOWN, t_text = ''$''\<rparr>]\<rparr> =
     Some (Inl ([], UninitializedStmt)) \<and>
   parseProgram getNextToken
     \<lparr>currentToken = \<lparr>t_type = TOKEN_UNKNOWN, t_text = ''$''\<rparr>, stream = ''$''\<rparr> =
     Some (Inl ([], UninitializedStmt))"
  using parseProgram_other_kind
      [of "loaded [\<lparr>t_type = TOKEN_UNKNOWN, t_text = ''$''\<rparr>]" nextToken "[]"]
    parseProgram_other_kind
      [of "\<lparr>currentToken = \<lparr>t_type = TOKEN_UNKNOWN, t_text = ''$''\<rparr>, stream = ''$''\<rparr>"
        getNextToken "[]"]
  by (simp add: parseProgram_def nextToken_loaded getNextToken_def)


subsection \<open>Expressions\<close>

text \<open>
  C4 (the claim does not hold of the code): with \<open>a\<close> as current token of the input
  \<^verbatim>\<open>a + b - c\<close>, \<open>parseExpression\<close> returns the single leaf \<open>a\<close> and leaves the state as
  it was: after \<open>parseFactor\<close> the current token is still \<open>a\<close>, so the loop is not
  entered and no \<^verbatim>\<open>+\<close> or \<^verbatim>\<open>-\<close> node is built. In every state \<open>parseExpression\<close>
  either stops in \<open>parseFactor\<close> or returns the leaf of the current token. The whole
  program on this input stops with \<^verbatim>\<open>expected token 1 but got 0\<close>.
\<close>

theorem parseExpression_single_leaf:
  "parseExpression getNextToken \<lparr>currentToken = ident ''a'', stream = ''a + b - c''\<rparr> =
     Some (Inr (Node TOKEN_IDENTIFIER None None ''a'',
                \<lparr>currentToken = ident ''a'', stream = ''a + b - c''\<rparr>)) \<and>
   parseExpression getNextToken s =
     (if t_type (currentToken s) = TOKEN_NUMBER \<or> t_type (currentToken s) = TOKEN_IDENTIFIER
      then Some (Inr (Node (t_type (currentToken s)) None None (t_text (currentToken s)), s))
      else Some (Inl FactorError)) \<and>
   parseProgram getNextToken \<lparr>currentToken = initial_currentToken, stream = ''a + b - c''\<rparr> =
     Some (Inl ([], SyntaxError TOKEN_IDENTIFIER TOKEN_INT))"
  by (simp add: parseExpression_stub parseFactor_stub parseProgram_stub createNode_def
      ident_def initial_currentToken_def)

subsection \<open>Declarations and assignments\<close>

text \<open>
  C6 (the claim does not hold of the code): with \<^verbatim>\<open>int\<close> as current token of the input
  \<^verbatim>\<open>int x;\<close>, \<open>parseDeclaration\<close> returns no node: \<^verbatim>\<open>match(TOKEN_INT)\<close> leaves \<^verbatim>\<open>int\<close>
  current and \<^verbatim>\<open>match(TOKEN_IDENTIFIER)\<close> stops with \<^verbatim>\<open>expected token 1 but got 0\<close>. In
  no state does \<open>parseDeclaration\<close> return a node, and the whole program on this input
  stops with the same error.
\<close>

theorem parseDeclaration_no_node:
  "parseDeclaration getNextToken \<lparr>currentToken = sym TOKEN_INT, stream = ''int x;''\<rparr> =
     Inl (SyntaxError TOKEN_IDENTIFIER TOKEN_INT) \<and>
   parseDeclaration getNextToken s \<noteq> Inr (n, s') \<and>
   parseProgram getNextToken \<lparr>currentToken = initial_currentToken, stream = ''int x;''\<rparr> =
     Some (Inl ([], SyntaxError TOKEN_IDENTIFIER TOKEN_INT)) \<and>
   error_codes (SyntaxError TOKEN_IDENTIFIER TOKEN_INT) = Some (1, 0)"
  by (simp add: parseDeclaration_stub parseProgram_stub sym_def initial_currentToken_def)

text \<open>
  C7 (the claim does not hold of the code): with \<open>x\<close> as current token of the input
  \<^verbatim>\<open>x = 1 + 2;\<close>, \<open>parseAssignment\<close> returns no node: \<^verbatim>\<open>match(TOKEN_IDENTIFIER)\<close> leaves
  \<open>x\<close> current and \<^verbatim>\<open>match(TOKEN_ASSIGN)\<close> stops with \<^verbatim>\<open>expected token 3 but got 1\<close>. In
  no state does \<open>parseAssignment\<close> return a node, and the whole program on this input
  stops with \<^verbatim>\<open>expected token 1 but got 0\<close>.
\<close>

theorem parseAssignment_no_node:
  "parseAssignment getNextToken \<lparr>currentToken = ident ''x'', stream = ''x = 1 + 2;''\<rparr> =
     Some (Inl (SyntaxError TOKEN_ASSIGN TOKEN_IDENTIFIER)) \<and>
   error_codes (SyntaxError TOKEN_ASSIGN TOKEN_IDENTIFIER) = Some (3, 1) \<and>
   parseAssignment getNextToken s \<noteq> Some (Inr (n, s')) \<and>
   parseProgram getNextToken \<lparr>currentToken = initial_currentToken, stream = ''x = 1 + 2;''\<rparr> =
     Some (Inl ([], SyntaxError TOKEN_IDENTIFIER TOKEN_INT))"
  by (simp add: parseAssignment_stub parseProgram_stub ident_def initial_currentToken_def)

subsection \<open>Conditionals\<close>

text \<open>
  C1 (the claim does not hold of the code): for the tokens of
  \<^verbatim>\<open>if { a == b } { x = 1; }\<close>, \<open>parseConditional\<close> returns a node created from the token
  \<open>a\<close> whose right child is the leaf \<open>b\<close> and whose left child is the assignment node of
  \<^verbatim>\<open>x = 1;\<close>: the second assignment to \<^verbatim>\<open>node->left\<close> has replaced the leaf \<open>a\<close>, which
  is no child of the node any more. With the empty \<open>getNextToken\<close> of the source the
  function returns no node at all: after \<^verbatim>\<open>match(TOKEN_IF)\<close> the current token is still
  \<^verbatim>\<open>if\<close>, and \<^verbatim>\<open>match(TOKEN_LBRACE)\<close> stops the run.
\<close>

theorem parseConditional_example:
  "parseConditional nextToken (loaded tokens_conditional) =
     Some (Inr (Node TOKEN_IDENTIFIER
                  (Some (Node TOKEN_IDENTIFIER None
                           (Some (Node TOKEN_NUMBER None None ''1'')) ''x''))
                  (Some (Node TOKEN_IDENTIFIER None None ''b''))
                  ''a'', loaded [])) \<and>
   parseAssignment nextToken
     (loaded [ident ''x'', sym TOKEN_ASSIGN, num ''1'', sym TOKEN_SEMICOLON, sym TOKEN_RBRACE]) =
     Some (Inr (Node TOKEN_IDENTIFIER None (Some (Node TOKEN_NUMBER None None ''1'')) ''x'',
                loaded [sym TOKEN_RBRACE])) \<and>
   parseConditional getNextToken
     \<lparr>currentToken = sym TOKEN_IF, stream = ''if { a == b } { x = 1; }''\<rparr> =
     Some (Inl (SyntaxError TOKEN_LBRACE TOKEN_IF))"
  by (simp add: eval_defs tokens_conditional_def parseExpression_loop.simps getNextToken_def)


subsection \<open>The shape of the trees\<close>








subsection \<open>Running the parser again\<close>



end
